theory Spec2Isabelle
  imports
    Main
    "HOL-Library.Finite_Map"
    "HOL-Library.Char_ord"
    "HOL-Library.List_Lexorder"
    "HOL-Library.Word"
begin

unbundle bit_operations_syntax

section \<open>The requirements collector (pkgplus/collector/service.go)\<close>

subsection \<open>Errors\<close>

text \<open>
  Go \<^verbatim>\<open>error\<close> values. \<open>Errorf\<close> is an error made by \<^verbatim>\<open>fmt.Errorf\<close> with the
  formatted text, \<open>Wrapped\<close> one made with the \<^verbatim>\<open>%w\<close> verb around another error, and
  \<open>External\<close> an error value handed over by a collaborator (the RPC transport, the file
  system, the operating system).
\<close>

datatype error = Errorf string | Wrapped string error | External string

subsection \<open>Protocol messages\<close>

text \<open>
  The protobuf message types live outside the repository. A message is modelled by the fields
  the collector reads; what it stores without reading is kept as one uninterpreted field.
  A Go pointer that may be nil is an \<open>option\<close>.
\<close>

datatype ResourceType =
    ResourceType_Api
  | ResourceType_Function
  | ResourceType_Bucket
  | ResourceType_Topic
  | ResourceType_Collection
  | ResourceType_Policy
  | ResourceType_Secret
  | ResourceType_ApiSecurityDefinition
  | ResourceType_Other nat

record Resource =
  Type :: ResourceType
  Name :: string

text \<open>The generated getters are nil-safe: on a nil receiver they return the zero value.\<close>

definition GetName :: "Resource option \<Rightarrow> string" where
  "GetName r = (case r of None \<Rightarrow> [] | Some x \<Rightarrow> Name x)"

definition GetType :: "Resource option \<Rightarrow> ResourceType" where
  "GetType r = (case r of None \<Rightarrow> ResourceType_Api | Some x \<Rightarrow> Type x)"

datatype BucketResource = BucketResource string
datatype CollectionResource = CollectionResource string
datatype ApiResource = ApiResource string
datatype SecretResource = SecretResource string
datatype TopicResource = TopicResource string

record ApiSecurityDefinitionResource =
  ApiName :: string
  Definition :: string

definition GetApiName :: "ApiSecurityDefinitionResource option \<Rightarrow> string" where
  "GetApiName d = (case d of None \<Rightarrow> [] | Some x \<Rightarrow> ApiName x)"

text \<open>
  \<open>Principals\<close> is a Go slice of pointers: the slice itself may be nil (\<open>None\<close>), which the
  code tells apart from an empty one, and so may each element.
\<close>

record PolicyResource =
  Principals :: "Resource option list option"
  Actions :: "nat list"
  Resources :: "Resource option list"

definition GetPrincipals :: "PolicyResource option \<Rightarrow> Resource option list option" where
  "GetPrincipals p = (case p of None \<Rightarrow> None | Some x \<Rightarrow> Principals x)"

text \<open>The \<^verbatim>\<open>oneof\<close> payload of a declaration, and its getters (nil when another arm is set).\<close>

datatype Config =
    Config_Bucket BucketResource
  | Config_Collection CollectionResource
  | Config_Api ApiResource
  | Config_ApiSecurityDefinition ApiSecurityDefinitionResource
  | Config_Secret SecretResource
  | Config_Policy PolicyResource
  | Config_Topic TopicResource

record ResourceDeclareRequest =
  Resource :: "Resource option"
  Config :: "Config option"

definition GetBucket :: "ResourceDeclareRequest \<Rightarrow> BucketResource option" where
  "GetBucket req = (case Config req of Some (Config_Bucket x) \<Rightarrow> Some x | _ \<Rightarrow> None)"

definition GetCollection :: "ResourceDeclareRequest \<Rightarrow> CollectionResource option" where
  "GetCollection req = (case Config req of Some (Config_Collection x) \<Rightarrow> Some x | _ \<Rightarrow> None)"

definition GetApi :: "ResourceDeclareRequest \<Rightarrow> ApiResource option" where
  "GetApi req = (case Config req of Some (Config_Api x) \<Rightarrow> Some x | _ \<Rightarrow> None)"

definition GetApiSecurityDefinition ::
    "ResourceDeclareRequest \<Rightarrow> ApiSecurityDefinitionResource option" where
  "GetApiSecurityDefinition req =
     (case Config req of Some (Config_ApiSecurityDefinition x) \<Rightarrow> Some x | _ \<Rightarrow> None)"

definition GetSecret :: "ResourceDeclareRequest \<Rightarrow> SecretResource option" where
  "GetSecret req = (case Config req of Some (Config_Secret x) \<Rightarrow> Some x | _ \<Rightarrow> None)"

definition GetPolicy :: "ResourceDeclareRequest \<Rightarrow> PolicyResource option" where
  "GetPolicy req = (case Config req of Some (Config_Policy x) \<Rightarrow> Some x | _ \<Rightarrow> None)"

definition GetTopic :: "ResourceDeclareRequest \<Rightarrow> TopicResource option" where
  "GetTopic req = (case Config req of Some (Config_Topic x) \<Rightarrow> Some x | _ \<Rightarrow> None)"

datatype ResourceDeclareResponse = ResourceDeclareResponse

datatype HttpProxyRequest = HttpProxyRequest string
datatype HttpProxyResponse = HttpProxyResponse

text \<open>Registration requests of the five streaming services.\<close>

record apis_RegistrationRequest =
  Api :: string
  Path :: string
  Methods :: "string list"
  Options :: string

record schedules_RegistrationRequest =
  ScheduleName :: string
  Cadence :: string

record topics_RegistrationRequest =
  TopicName :: string

record storage_RegistrationRequest =
  BucketName :: string
  KeyPrefixFilter :: string

datatype WebsocketEventType =
    WebsocketEventType_Connect
  | WebsocketEventType_Disconnect
  | WebsocketEventType_Message
  | WebsocketEventType_Other nat

record websockets_RegistrationRequest =
  SocketName :: string
  EventType :: WebsocketEventType

text \<open>
  A client message is modelled by what \<^verbatim>\<open>GetRegistrationRequest\<close> returns on it: the
  request, or nil when the message carries anything else. The only server message the
  collector sends is the registration response.
\<close>

datatype 'r ClientMessage = ClientMessage (GetRegistrationRequest: "'r option")

datatype ServerMessage = RegistrationResponse

text \<open>
  The stream as the handler sees it: the result of its one \<^verbatim>\<open>Recv\<close>, and what \<^verbatim>\<open>Send\<close>
  returns for a message. A handler returns the new aggregate, the messages it passed to
  \<^verbatim>\<open>Send\<close>, and its own return value (nil is \<open>None\<close>).
\<close>

record 'r Stream =
  Recv :: "error + 'r ClientMessage"
  Send :: "ServerMessage \<Rightarrow> error option"

subsection \<open>The aggregate\<close>

text \<open>
  Go maps are finite maps. A map whose values are pointers stores \<open>option\<close>s, since the code
  stores whatever the getter returned. The mutex \<^verbatim>\<open>resourceLock\<close> is never taken by
  any method and has no field here.
\<close>

record ServiceRequirements =
  serviceName :: string
  serviceType :: string
  routes :: "(string, apis_RegistrationRequest list) fmap"
  schedules :: "(string, schedules_RegistrationRequest) fmap"
  subscriptions :: "(string, topics_RegistrationRequest list) fmap"
  websockets :: "(string, websockets_RegistrationRequest list) fmap"
  listeners :: "(string, storage_RegistrationRequest) fmap"
  proxy :: "HttpProxyRequest option"
  apis :: "(string, ApiResource option) fmap"
  apiSecurityDefinition ::
    "(string, (string, ApiSecurityDefinitionResource option) fmap) fmap"
  buckets :: "(string, BucketResource option) fmap"
  collections :: "(string, CollectionResource option) fmap"
  topics :: "(string, TopicResource option) fmap"
  policies :: "(string, PolicyResource option) fmap"
  secrets :: "(string, SecretResource option) fmap"
  errors :: "error list"

definition NewServiceRequirements :: "string \<Rightarrow> string \<Rightarrow> ServiceRequirements" where
  "NewServiceRequirements name stype =
     \<lparr> serviceName = name,
       serviceType = (if stype = [] then ''default'' else stype),
       routes = fmempty,
       schedules = fmempty,
       subscriptions = fmempty,
       websockets = fmempty,
       listeners = fmempty,
       proxy = None,
       apis = fmempty,
       apiSecurityDefinition = fmempty,
       buckets = fmempty,
       collections = fmempty,
       topics = fmempty,
       policies = fmempty,
       secrets = fmempty,
       errors = [] \<rparr>"

subsection \<open>Helpers from the Go runtime and \<^verbatim>\<open>samber/lo\<close>\<close>

text \<open>\<^verbatim>\<open>len(m)\<close> of a map: the number of keys.\<close>

definition len_map :: "('k, 'v) fmap \<Rightarrow> nat" where
  "len_map m = fcard (fmdom m)"

text \<open>
  \<^verbatim>\<open>lo.Values\<close>: the values of a map, one per key. Go leaves the order open; the model lists
  them by ascending key.
\<close>

definition Values :: "('k::linorder, 'v) fmap \<Rightarrow> 'v list" where
  "Values m = map snd (sorted_list_of_fmap m)"

text \<open>\<^verbatim>\<open>m[k]\<close> on a map of slices: the nil slice when the key is missing.\<close>

definition index_slices :: "('k, 'v list) fmap \<Rightarrow> 'k \<Rightarrow> 'v list" where
  "index_slices m k = (case fmlookup m k of None \<Rightarrow> [] | Some xs \<Rightarrow> xs)"

text \<open>\<^verbatim>\<open>lo.Intersect\<close>: the elements of the second list that occur in the first.\<close>

definition Intersect :: "'a list \<Rightarrow> 'a list \<Rightarrow> 'a list" where
  "Intersect list1 list2 = filter (\<lambda>elem. elem \<in> set list1) list2"

text \<open>\<^verbatim>\<open>lo.Find\<close>: the first element that satisfies the predicate, if any.\<close>

definition Find :: "'a list \<Rightarrow> ('a \<Rightarrow> bool) \<Rightarrow> 'a option" where
  "Find xs p = find p xs"

text \<open>Decimal digits of a number, as \<^verbatim>\<open>fmt\<close> prints an integer.\<close>

fun Sprint :: "nat \<Rightarrow> string" where
  "Sprint n =
     (if n < 10 then [''0123456789'' ! n]
      else Sprint (n div 10) @ [''0123456789'' ! (n mod 10)])"

text \<open>The name \<^verbatim>\<open>%s\<close> prints for an event type (the number, for a value without a name).\<close>

fun EventType_String :: "WebsocketEventType \<Rightarrow> string" where
  "EventType_String WebsocketEventType_Connect = ''Connect''"
| "EventType_String WebsocketEventType_Disconnect = ''Disconnect''"
| "EventType_String WebsocketEventType_Message = ''Message''"
| "EventType_String (WebsocketEventType_Other n) = Sprint n"

subsection \<open>Unary calls\<close>

text \<open>
  A call either returns or panics (a nil pointer dereference); in both cases the aggregate
  it leaves behind is part of the result.
\<close>

datatype 'a outcome = Returned 'a | Panicked

text \<open>The Policy arm of \<^verbatim>\<open>Declare\<close>: what the loop does to one principal.\<close>

definition fill_principal :: "string \<Rightarrow> Resource option \<Rightarrow> Resource option" where
  "fill_principal svc p =
     (if GetName p = [] \<and> GetType p = ResourceType_Function
      then map_option (\<lambda>r. r\<lparr>Name := svc\<rparr>) p
      else p)"

text \<open>
  \<^verbatim>\<open>Declare\<close>. Reading \<^verbatim>\<open>req.Resource.Type\<close> dereferences \<^verbatim>\<open>req.Resource\<close>, and the
  Policy arm assigns to a field of \<^verbatim>\<open>req.GetPolicy()\<close> when its principals are nil: both
  panic on a nil pointer, before anything is stored.
\<close>

definition Declare ::
    "ServiceRequirements \<Rightarrow> ResourceDeclareRequest \<Rightarrow>
     ServiceRequirements \<times> (ResourceDeclareResponse \<times> error option) outcome" where
  "Declare s req =
     (case Resource req of
        None \<Rightarrow> (s, Panicked)
      | Some res \<Rightarrow>
         (case Type res of
            ResourceType_Bucket \<Rightarrow>
              (s\<lparr>buckets := fmupd (GetName (Resource req)) (GetBucket req) (buckets s)\<rparr>,
               Returned (ResourceDeclareResponse, None))
          | ResourceType_Collection \<Rightarrow>
              (s\<lparr>collections :=
                   fmupd (GetName (Resource req)) (GetCollection req) (collections s)\<rparr>,
               Returned (ResourceDeclareResponse, None))
          | ResourceType_Api \<Rightarrow>
              (s\<lparr>apis := fmupd (GetName (Resource req)) (GetApi req) (apis s)\<rparr>,
               Returned (ResourceDeclareResponse, None))
          | ResourceType_ApiSecurityDefinition \<Rightarrow>
              (let api = GetApiName (GetApiSecurityDefinition req);
                   inner = (case fmlookup (apiSecurityDefinition s) api of
                              None \<Rightarrow> fmempty | Some m \<Rightarrow> m)
               in (s\<lparr>apiSecurityDefinition :=
                        fmupd api
                          (fmupd (GetName (Resource req)) (GetApiSecurityDefinition req) inner)
                          (apiSecurityDefinition s)\<rparr>,
                   Returned (ResourceDeclareResponse, None)))
          | ResourceType_Secret \<Rightarrow>
              (s\<lparr>secrets := fmupd (GetName (Resource req)) (GetSecret req) (secrets s)\<rparr>,
               Returned (ResourceDeclareResponse, None))
          | ResourceType_Policy \<Rightarrow>
              (case GetPrincipals (GetPolicy req) of
                 None \<Rightarrow>
                   (case GetPolicy req of
                      None \<Rightarrow> (s, Panicked)
                    | Some pol \<Rightarrow>
                        (s\<lparr>policies :=
                             fmupd (GetName (Resource req))
                               (Some (pol\<lparr>Principals :=
                                  Some [Some \<lparr>Type = ResourceType_Function,
                                              Name = serviceName s\<rparr>]\<rparr>))
                               (policies s)\<rparr>,
                         Returned (ResourceDeclareResponse, None)))
               | Some principals \<Rightarrow>
                   (s\<lparr>policies :=
                        fmupd (GetName (Resource req))
                          (map_option
                             (\<lambda>pol. pol\<lparr>Principals :=
                                Some (map (fill_principal (serviceName s)) principals)\<rparr>)
                             (GetPolicy req))
                          (policies s)\<rparr>,
                    Returned (ResourceDeclareResponse, None)))
          | ResourceType_Topic \<Rightarrow>
              (s\<lparr>topics := fmupd (GetName (Resource req)) (GetTopic req) (topics s)\<rparr>,
               Returned (ResourceDeclareResponse, None))
          | _ \<Rightarrow> (s, Returned (ResourceDeclareResponse, None))))"

text \<open>\<^verbatim>\<open>Proxy\<close>: both checks run, then the request is stored.\<close>

definition Proxy ::
    "ServiceRequirements \<Rightarrow> HttpProxyRequest \<Rightarrow>
     ServiceRequirements \<times> HttpProxyResponse \<times> error option" where
  "Proxy s req =
     (let s1 = (if len_map (routes s) > 0
                then s\<lparr>errors := errors s @
                       [Errorf ''cannot register HTTP proxy, API routes have already been registered'']\<rparr>
                else s);
          s2 = (if proxy s1 \<noteq> None
                then s1\<lparr>errors := errors s1 @
                       [Errorf ''cannot register HTTP proxy, another proxy has already been registered'']\<rparr>
                else s1)
      in (s2\<lparr>proxy := Some req\<rparr>, HttpProxyResponse, None))"


subsection \<open>Streaming registrations\<close>

text \<open>
  Each handler receives one message, returns early on a receive error or when the message is
  not a registration request, checks the request against the aggregate, and returns what
  \<^verbatim>\<open>Send\<close> returns for the registration response.
\<close>

definition Serve ::
    "ServiceRequirements \<Rightarrow> apis_RegistrationRequest Stream \<Rightarrow>
     ServiceRequirements \<times> ServerMessage list \<times> error option" where
  "Serve s stream =
     (case Recv stream of
        Inl err \<Rightarrow> (s, [], Some err)
      | Inr msg \<Rightarrow>
         (case GetRegistrationRequest msg of
            None \<Rightarrow> (s, [], Some (Errorf ''first message must be a registration request''))
          | Some registrationRequest \<Rightarrow>
             (let s' =
                (case Find (index_slices (routes s) (Api registrationRequest))
                        (\<lambda>item. length (Intersect (Methods item) (Methods registrationRequest)) > 0
                                \<and> Path item = Path registrationRequest) of
                   Some existingRoute \<Rightarrow>
                     s\<lparr>errors := errors s @
                         [Errorf (''route already registered: '' @ Api existingRoute @ '' ''
                                  @ Path existingRoute)]\<rparr>
                 | None \<Rightarrow>
                     s\<lparr>routes :=
                         fmupd (Api registrationRequest)
                           (index_slices (routes s) (Api registrationRequest)
                            @ [registrationRequest])
                           (routes s)\<rparr>)
              in (s', [RegistrationResponse], Send stream RegistrationResponse))))"

definition Schedule ::
    "ServiceRequirements \<Rightarrow> schedules_RegistrationRequest Stream \<Rightarrow>
     ServiceRequirements \<times> ServerMessage list \<times> error option" where
  "Schedule s stream =
     (case Recv stream of
        Inl err \<Rightarrow> (s, [], Some err)
      | Inr msg \<Rightarrow>
         (case GetRegistrationRequest msg of
            None \<Rightarrow> (s, [], Some (Errorf ''first message must be a registration request''))
          | Some registrationRequest \<Rightarrow>
             (let found = (fmlookup (schedules s) (ScheduleName registrationRequest) \<noteq> None);
                  s1 = (if found
                        then s\<lparr>errors := errors s @
                               [Errorf (''schedule already registered: ''
                                        @ ScheduleName registrationRequest)]\<rparr>
                        else s);
                  s2 = s1\<lparr>schedules :=
                            fmupd (ScheduleName registrationRequest) registrationRequest
                              (schedules s1)\<rparr>
              in (s2, [RegistrationResponse], Send stream RegistrationResponse))))"

definition Subscribe ::
    "ServiceRequirements \<Rightarrow> topics_RegistrationRequest Stream \<Rightarrow>
     ServiceRequirements \<times> ServerMessage list \<times> error option" where
  "Subscribe s stream =
     (case Recv stream of
        Inl err \<Rightarrow> (s, [], Some err)
      | Inr msg \<Rightarrow>
         (case GetRegistrationRequest msg of
            None \<Rightarrow> (s, [], Some (Errorf ''first message must be a registration request''))
          | Some registrationRequest \<Rightarrow>
             (s\<lparr>subscriptions :=
                  fmupd (TopicName registrationRequest)
                    (index_slices (subscriptions s) (TopicName registrationRequest)
                     @ [registrationRequest])
                    (subscriptions s)\<rparr>,
              [RegistrationResponse], Send stream RegistrationResponse)))"

text \<open>\<^verbatim>\<open>Listen\<close> looks the bucket name up in \<^verbatim>\<open>s.buckets\<close> and stores into \<^verbatim>\<open>s.listeners\<close>.\<close>

definition Listen ::
    "ServiceRequirements \<Rightarrow> storage_RegistrationRequest Stream \<Rightarrow>
     ServiceRequirements \<times> ServerMessage list \<times> error option" where
  "Listen s stream =
     (case Recv stream of
        Inl err \<Rightarrow> (s, [], Some err)
      | Inr msg \<Rightarrow>
         (case GetRegistrationRequest msg of
            None \<Rightarrow> (s, [], Some (Errorf ''first ''))
          | Some registrationRequest \<Rightarrow>
             (let found = (fmlookup (buckets s) (BucketName registrationRequest) \<noteq> None);
                  s' = (if found
                        then s\<lparr>errors := errors s @
                               [Errorf (''bucket already registered: ''
                                        @ BucketName registrationRequest)]\<rparr>
                        else s\<lparr>listeners :=
                               fmupd (BucketName registrationRequest) registrationRequest
                                 (listeners s)\<rparr>)
              in (s', [RegistrationResponse], Send stream RegistrationResponse))))"

definition HandleEvents ::
    "ServiceRequirements \<Rightarrow> websockets_RegistrationRequest Stream \<Rightarrow>
     ServiceRequirements \<times> ServerMessage list \<times> error option" where
  "HandleEvents s stream =
     (case Recv stream of
        Inl err \<Rightarrow> (s, [], Some err)
      | Inr msg \<Rightarrow>
         (case GetRegistrationRequest msg of
            None \<Rightarrow> (s, [], Some (Errorf ''first message must be a registration request''))
          | Some registrationRequest \<Rightarrow>
             (let s' =
                (case Find (index_slices (websockets s) (SocketName registrationRequest))
                        (\<lambda>item. EventType item = EventType registrationRequest) of
                   Some existingSocketHandler \<Rightarrow>
                     s\<lparr>errors := errors s @
                         [Errorf (''websocket handler already registered: ''
                                  @ SocketName existingSocketHandler @ '' ''
                                  @ EventType_String (EventType existingSocketHandler))]\<rparr>
                 | None \<Rightarrow>
                     s\<lparr>websockets :=
                         fmupd (SocketName registrationRequest)
                           (index_slices (websockets s) (SocketName registrationRequest)
                            @ [registrationRequest])
                           (websockets s)\<rparr>)
              in (s', [RegistrationResponse], Send stream RegistrationResponse))))"

subsection \<open>The worker count\<close>

definition WorkerCount :: "ServiceRequirements \<Rightarrow> nat" where
  "WorkerCount s =
     length (Values (routes s)) +
     len_map (listeners s) +
     len_map (schedules s) +
     length (Values (subscriptions s)) +
     length (Values (websockets s))"


subsection \<open>Aggregates the handlers can produce\<close>

text \<open>
  The fields of the aggregate are private: a state of the collector is what
  \<^verbatim>\<open>NewServiceRequirements\<close> builds, changed by any sequence of handler calls.
\<close>

inductive reachable :: "ServiceRequirements \<Rightarrow> bool" where
  reach_new: "reachable (NewServiceRequirements name stype)"
| reach_declare: "reachable s \<Longrightarrow> reachable (fst (Declare s req))"
| reach_proxy: "reachable s \<Longrightarrow> reachable (fst (Proxy s preq))"
| reach_serve: "reachable s \<Longrightarrow> reachable (fst (Serve s st1))"
| reach_schedule: "reachable s \<Longrightarrow> reachable (fst (Schedule s st2))"
| reach_subscribe: "reachable s \<Longrightarrow> reachable (fst (Subscribe s st3))"
| reach_listen: "reachable s \<Longrightarrow> reachable (fst (Listen s st4))"
| reach_handle_events: "reachable s \<Longrightarrow> reachable (fst (HandleEvents s st5))"

text \<open>No key of a map of slices holds an empty slice.\<close>

definition no_empty_slice :: "('k, 'v list) fmap \<Rightarrow> bool" where
  "no_empty_slice m = (\<forall>k. fmlookup m k \<noteq> Some [])"

definition slices_inv :: "ServiceRequirements \<Rightarrow> bool" where
  "slices_inv s \<longleftrightarrow>
     no_empty_slice (routes s) \<and> no_empty_slice (subscriptions s) \<and> no_empty_slice (websockets s)"

text \<open>
  The worker count in the words of the specification: the keys that hold at least one entry
  (APIs with a route, topics with a subscription, sockets with a handler), plus the listeners
  and the schedules.
\<close>

definition keys_with_entries :: "('k, 'v list) fmap \<Rightarrow> nat" where
  "keys_with_entries m = fcard (ffilter (\<lambda>k. index_slices m k \<noteq> []) (fmdom m))"

definition WorkerCount_spec :: "ServiceRequirements \<Rightarrow> nat" where
  "WorkerCount_spec s =
     keys_with_entries (routes s) +
     fcard (fmdom (listeners s)) +
     fcard (fmdom (schedules s)) +
     keys_with_entries (subscriptions s) +
     keys_with_entries (websockets s)"

section \<open>The provider process supervisor (pkgplus/provider/exec.go)\<close>

subsection \<open>File modes\<close>

text \<open>
  \<^verbatim>\<open>os.FileMode\<close> is a 32-bit word; the mode bits, \<^verbatim>\<open>IsRegular\<close> and \<^verbatim>\<open>Perm\<close> are
  those of Go's standard library (\<^verbatim>\<open>io/fs\<close>).
\<close>

type_synonym FileMode = "32 word"

definition ModeDir :: FileMode where "ModeDir = push_bit 31 1"
definition ModeSymlink :: FileMode where "ModeSymlink = push_bit 27 1"
definition ModeDevice :: FileMode where "ModeDevice = push_bit 26 1"
definition ModeNamedPipe :: FileMode where "ModeNamedPipe = push_bit 25 1"
definition ModeSocket :: FileMode where "ModeSocket = push_bit 24 1"
definition ModeCharDevice :: FileMode where "ModeCharDevice = push_bit 21 1"
definition ModeIrregular :: FileMode where "ModeIrregular = push_bit 19 1"

definition ModeType :: FileMode where
  "ModeType = ModeDir OR ModeSymlink OR ModeNamedPipe OR ModeSocket OR ModeDevice
              OR ModeCharDevice OR ModeIrregular"

definition ModePerm :: FileMode where "ModePerm = 0x1FF"

definition IsRegular :: "FileMode \<Rightarrow> bool" where
  "IsRegular m = (m AND ModeType = 0)"

definition Perm :: "FileMode \<Rightarrow> FileMode" where
  "Perm m = m AND ModePerm"

definition isExecAny :: "string \<Rightarrow> FileMode \<Rightarrow> bool" where
  "isExecAny goos mode =
     (if goos = ''windows'' then IsRegular mode
      else IsRegular mode \<and> (Perm mode AND 0x49) \<noteq> 0)"

subsection \<open>The host\<close>

text \<open>
  What the supervisor asks of its collaborators is a parameter: the platform name, the file
  system's \<^verbatim>\<open>Stat\<close> (reduced to the mode it reports), the environment, the listener
  that \<^verbatim>\<open>utils.GetNextListener\<close> hands out (its address, its TCP port, and what closing
  it returns), and what starting a command with a path and an environment returns.
\<close>

datatype Process = Process nat

record Listener =
  Addr_String :: string
  Addr_Port :: nat
  Close :: "error option"

record Host =
  GOOS :: string
  Stat :: "string \<Rightarrow> error + FileMode"
  Environ :: "string list"
  GetNextListener :: "error + Listener"
  Start :: "string \<Rightarrow> string list option \<Rightarrow> error + Process"

record ProviderProcess =
  providerPath :: string
  process :: "Process option"
  envMap :: "(string, string) fmap option"
  Address :: string

text \<open>
  \<^verbatim>\<open>startProcess\<close> returns the updated supervisor, its error, and the processes it
  launched. Go leaves the order in which a map is ranged over open; the model takes the
  keys in ascending order.
\<close>

definition startProcess ::
    "Host \<Rightarrow> ProviderProcess \<Rightarrow> ProviderProcess \<times> error option \<times> Process list" where
  "startProcess host p =
     (let p1 = (if envMap p = None then p\<lparr>envMap := Some fmempty\<rparr> else p)
      in case GetNextListener host of
           Inl err \<Rightarrow> (p1, Some err, [])
         | Inr lis \<Rightarrow>
            (let p2 = p1\<lparr>Address := Addr_String lis\<rparr>;
                 m = fmupd ''PORT'' (Sprint (Addr_Port lis))
                       (case envMap p2 of None \<Rightarrow> fmempty | Some e \<Rightarrow> e);
                 p3 = p2\<lparr>envMap := Some m\<rparr>;
                 env = (if len_map m > 0
                        then Some (Environ host
                                   @ map (\<lambda>(k, v). k @ ''='' @ v) (sorted_list_of_fmap m))
                        else None)
             in case Close lis of
                  Some err \<Rightarrow> (p3, Some err, [])
                | None \<Rightarrow>
                   (case Start host (providerPath p3) env of
                      Inl err \<Rightarrow> (p3, Some err, [])
                    | Inr proc \<Rightarrow> (p3\<lparr>process := Some proc\<rparr>, None, [proc]))))"

text \<open>
  \<^verbatim>\<open>Stop\<close>. Killing acts on the operating system, whose state \<open>'os\<close> is threaded
  through; \<^verbatim>\<open>Stop\<close> assigns no field of the supervisor.
\<close>

definition Stop ::
    "('os \<Rightarrow> Process \<Rightarrow> error option \<times> 'os) \<Rightarrow> ProviderProcess \<Rightarrow> 'os \<Rightarrow> error option \<times> 'os" where
  "Stop Kill b os =
     (case process b of
        Some proc \<Rightarrow>
          (case Kill os proc of
             (Some err, os') \<Rightarrow> (Some (Wrapped ''failed to stop provider: '' err), os')
           | (None, os') \<Rightarrow> (None, os'))
      | None \<Rightarrow> (None, os))"

definition StartProviderExecutable ::
    "Host \<Rightarrow> string \<Rightarrow> ProviderProcess option \<times> error option \<times> Process list" where
  "StartProviderExecutable host executablePath =
     (case Stat host executablePath of
        Inl err \<Rightarrow> (None, Some err, [])
      | Inr mode \<Rightarrow>
         if \<not> isExecAny (GOOS host) mode
         then (None, Some (Errorf ''provider binary is not executable''), [])
         else
           (let provProc = \<lparr>providerPath = executablePath, process = None,
                            envMap = Some fmempty, Address = []\<rparr>
            in case startProcess host provProc of
                 (p', Some err, launched) \<Rightarrow> (None, Some err, launched)
               | (p', None, launched) \<Rightarrow> (Some p', None, launched)))"



section \<open>Sample values\<close>

fun Send_ok :: "ServerMessage \<Rightarrow> error option" where
  "Send_ok m = None"

text \<open>A stream whose first message is the registration request \<open>r\<close> and whose sends succeed.\<close>

definition registering :: "'r \<Rightarrow> 'r Stream" where
  "registering r = \<lparr>Recv = Inr (ClientMessage (Some r)), Send = Send_ok\<rparr>"

definition sample_service :: ServiceRequirements where
  "sample_service = NewServiceRequirements ''orders'' []"

definition nightly_a :: schedules_RegistrationRequest where
  "nightly_a = \<lparr>ScheduleName = ''nightly'', Cadence = ''every 1 days''\<rparr>"

definition nightly_b :: schedules_RegistrationRequest where
  "nightly_b = \<lparr>ScheduleName = ''nightly'', Cadence = ''0 3 * * *''\<rparr>"

definition items_get :: apis_RegistrationRequest where
  "items_get = \<lparr>Api = ''main'', Path = ''/items'', Methods = [''GET''], Options = []\<rparr>"

definition items_any :: apis_RegistrationRequest where
  "items_any = \<lparr>Api = ''main'', Path = ''/items'', Methods = [''POST'', ''GET''], Options = []\<rparr>"

definition items_post :: apis_RegistrationRequest where
  "items_post = \<lparr>Api = ''main'', Path = ''/items'', Methods = [''POST''], Options = []\<rparr>"

definition uploads_a :: storage_RegistrationRequest where
  "uploads_a = \<lparr>BucketName = ''uploads'', KeyPrefixFilter = ''img/''\<rparr>"

definition uploads_b :: storage_RegistrationRequest where
  "uploads_b = \<lparr>BucketName = ''uploads'', KeyPrefixFilter = ''doc/''\<rparr>"

definition declare_uploads :: ResourceDeclareRequest where
  "declare_uploads =
     \<lparr>Resource = Some \<lparr>Type = ResourceType_Bucket, Name = ''uploads''\<rparr>,
      Config = Some (Config_Bucket (BucketResource []))\<rparr>"

section \<open>Properties of the collector\<close>

lemmas sample_defs =
  registering_def sample_service_def nightly_a_def nightly_b_def items_get_def items_any_def
  items_post_def uploads_a_def uploads_b_def declare_uploads_def NewServiceRequirements_def

lemma len_map_simps:
  "len_map fmempty = 0"
  "len_map (fmupd k v m) = (if k |\<in>| fmdom m then len_map m else Suc (len_map m))"
  by (simp_all add: len_map_def fcard_finsert_if)

lemma Find_Some_iff: "(\<exists>x. Find xs p = Some x) \<longleftrightarrow> (\<exists>x\<in>set xs. p x)"
  unfolding Find_def by (induction xs) auto

lemma Intersect_nonempty: "Intersect xs ys \<noteq> [] \<longleftrightarrow> set xs \<inter> set ys \<noteq> {}"
  unfolding Intersect_def by (auto simp: filter_empty_conv)


subsection \<open>Proxy registration\<close>

text \<open>
  Claim C1: \<^verbatim>\<open>Proxy\<close>, called when a route is registered, must record a conflict and
  leave the proxy field unset; called when a proxy is registered, it must record a conflict
  and keep the first proxy. The code records the conflict, with a message that says the proxy
  cannot be registered, and then stores the request all the same: the assignment to the proxy
  field is not guarded by the two checks, where \<^verbatim>\<open>Serve\<close>, \<^verbatim>\<open>Listen\<close> and
  \<^verbatim>\<open>HandleEvents\<close> store only when they found no conflict. After one route and one proxy
  request the proxy field is set; after two proxy requests it holds the second.
\<close>

theorem Proxy_stores_despite_conflict:
  "errors (fst (Proxy (fst (Serve sample_service (registering items_get)))
                  (HttpProxyRequest ''localhost:3000'')))
     = [Errorf ''cannot register HTTP proxy, API routes have already been registered'']
   \<and> proxy (fst (Proxy (fst (Serve sample_service (registering items_get)))
                  (HttpProxyRequest ''localhost:3000'')))
     = Some (HttpProxyRequest ''localhost:3000'')
   \<and> errors (fst (Proxy (fst (Proxy sample_service (HttpProxyRequest ''localhost:3000'')))
                  (HttpProxyRequest ''localhost:4000'')))
     = [Errorf ''cannot register HTTP proxy, another proxy has already been registered'']
   \<and> proxy (fst (Proxy (fst (Proxy sample_service (HttpProxyRequest ''localhost:3000'')))
                  (HttpProxyRequest ''localhost:4000'')))
     = Some (HttpProxyRequest ''localhost:4000'')"
  by (simp add: Proxy_def Let_def sample_defs Serve_def Find_def index_slices_def len_map_simps)

subsection \<open>Storage listeners\<close>

text \<open>
  Claim C2 says that the duplicate test of \<^verbatim>\<open>Listen\<close> is an existing listener under the
  bucket name. The code tests the declared buckets instead. With the bucket \<open>uploads\<close>
  declared and no listener registered, the first listener is refused with a conflict error;
  with no bucket declared, a second listener for \<open>uploads\<close> replaces the first and no error
  is recorded.
\<close>

theorem Listen_tests_declared_buckets:
  "errors (fst (Listen (fst (Declare sample_service declare_uploads)) (registering uploads_a)))
     = [Errorf ''bucket already registered: uploads'']
   \<and> listeners (fst (Listen (fst (Declare sample_service declare_uploads)) (registering uploads_a)))
     = fmempty
   \<and> errors (fst (Listen (fst (Listen sample_service (registering uploads_a)))
                  (registering uploads_b))) = []
   \<and> fmlookup (listeners (fst (Listen (fst (Listen sample_service (registering uploads_a)))
                  (registering uploads_b)))) ''uploads'' = Some uploads_b"
  by (simp add: sample_defs Listen_def Declare_def Let_def GetName_def GetBucket_def)

subsection \<open>Schedules\<close>



subsection \<open>API routes\<close>

text \<open>
  Claim C4 speaks of every pair of registrations with the same API, the same path and a
  common method. \<^verbatim>\<open>Serve\<close> compares a registration with the routes that are stored, and
  a registration that was refused is not stored. So after \<open>GET /items\<close> is stored and
  \<open>POST,GET /items\<close> is refused, \<open>POST /items\<close> is stored and records no error, although
  it shares the API, the path and the method \<open>POST\<close> with the refused registration.
\<close>

theorem Serve_refused_route_counterexample:
  "Api items_post = Api items_any \<and> Path items_post = Path items_any
   \<and> ''POST'' \<in> set (Methods items_any) \<and> ''POST'' \<in> set (Methods items_post)
   \<and> errors (fst (Serve (fst (Serve (fst (Serve sample_service (registering items_get)))
                  (registering items_any))) (registering items_post)))
      = errors (fst (Serve (fst (Serve sample_service (registering items_get)))
                  (registering items_any)))
   \<and> index_slices (routes (fst (Serve (fst (Serve (fst (Serve sample_service
                  (registering items_get))) (registering items_any))) (registering items_post))))
        ''main''
      = [items_get, items_post]"
  by (simp add: sample_defs Serve_def Let_def Find_def index_slices_def Intersect_def)

text \<open>
  Claim C4, narrowed to the routes that are stored: a registration that shares a method and
  the path with a route stored under its API appends exactly one conflict error and leaves
  the route table as it was; a registration with no such stored route is appended to the
  routes of its API and records no error. Both send the registration response.
\<close>

theorem Serve_duplicate_route:
  assumes "Recv stream = Inr (ClientMessage (Some r2))"
  shows "((\<exists>r1\<in>set (index_slices (routes s) (Api r2)).
             set (Methods r1) \<inter> set (Methods r2) \<noteq> {} \<and> Path r1 = Path r2) \<longrightarrow>
          (\<exists>x\<in>set (index_slices (routes s) (Api r2)).
             Serve s stream =
               (s\<lparr>errors := errors s @
                    [Errorf (''route already registered: '' @ Api x @ '' '' @ Path r2)]\<rparr>,
                [RegistrationResponse], Send stream RegistrationResponse)))
       \<and> ((\<forall>r1\<in>set (index_slices (routes s) (Api r2)).
             set (Methods r1) \<inter> set (Methods r2) = {} \<or> Path r1 \<noteq> Path r2) \<longrightarrow>
          Serve s stream =
            (s\<lparr>routes := fmupd (Api r2) (index_slices (routes s) (Api r2) @ [r2]) (routes s)\<rparr>,
             [RegistrationResponse], Send stream RegistrationResponse))"
proof (intro conjI impI)
  let ?p = "\<lambda>item. length (Intersect (Methods item) (Methods r2)) > 0 \<and> Path item = Path r2"
  let ?xs = "index_slices (routes s) (Api r2)"
  {
    assume "\<exists>r1\<in>set ?xs. set (Methods r1) \<inter> set (Methods r2) \<noteq> {} \<and> Path r1 = Path r2"
    then have "\<exists>x\<in>set ?xs. ?p x" by (simp add: Intersect_nonempty)
    then obtain x where fx: "Find ?xs ?p = Some x" using Find_Some_iff[of ?xs ?p] by blast
    then have "x \<in> set ?xs" and "Path x = Path r2"
      unfolding Find_def by (auto simp: find_Some_iff)
    with fx assms show "\<exists>x\<in>set ?xs.
             Serve s stream =
               (s\<lparr>errors := errors s @
                    [Errorf (''route already registered: '' @ Api x @ '' '' @ Path r2)]\<rparr>,
                [RegistrationResponse], Send stream RegistrationResponse)"
      by (intro bexI[of _ x]) (simp_all add: Serve_def Let_def)
  }
  {
    assume "\<forall>r1\<in>set ?xs. set (Methods r1) \<inter> set (Methods r2) = {} \<or> Path r1 \<noteq> Path r2"
    then have "\<not> (\<exists>x\<in>set ?xs. ?p x)" by (auto simp: Intersect_nonempty)
    then have "Find ?xs ?p = None" using Find_Some_iff[of ?xs ?p] by (cases "Find ?xs ?p") auto
    with assms show "Serve s stream =
           (s\<lparr>routes := fmupd (Api r2) (?xs @ [r2]) (routes s)\<rparr>,
            [RegistrationResponse], Send stream RegistrationResponse)"
      by (simp add: Serve_def Let_def)
  }
qed

theorem Serve_duplicate_route_witness:
  "Serve (fst (Serve sample_service (registering items_get))) (registering items_any)
   = ((fst (Serve sample_service (registering items_get)))
        \<lparr>errors := [Errorf ''route already registered: main /items'']\<rparr>,
      [RegistrationResponse], None)
   \<and> index_slices (routes (fst (Serve (fst (Serve sample_service (registering items_get)))
         (registering items_any)))) ''main'' = [items_get]
   \<and> index_slices (routes (fst (Serve (fst (Serve sample_service (registering items_get)))
         (registering items_post)))) ''main'' = [items_get, items_post]"
  using Serve_duplicate_route[of "registering items_any" items_any
          "fst (Serve sample_service (registering items_get))"]
        Serve_duplicate_route[of "registering items_post" items_post
          "fst (Serve sample_service (registering items_get))"]
  by (simp add: sample_defs Serve_def Let_def Find_def index_slices_def Intersect_def)

end
